theory Spec2Isabelle
  imports Complex_Main "HOL-Library.Log_Nat"
begin

section \<open>JavaScript values\<close>

text \<open>
  The handlers of \<^verbatim>\<open>src/server.ts\<close> read \<^verbatim>\<open>req.body\<close>, which the
  \<^verbatim>\<open>express.json()\<close> middleware fills with the parsed JSON body. It is taken to be an
  object, as every endpoint's interface describes it; its type is \<^verbatim>\<open>any\<close>, so a field
  may hold any JSON value or be absent (\<^verbatim>\<open>undefined\<close>).

  A number is an IEEE 754 double: not-a-number, an infinity, or a finite value, which is
  a rational. The two zeros are not told apart: none of the operations the handlers apply
  (\<^verbatim>\<open>!x\<close>, \<^verbatim>\<open>x <= 0\<close>, \<^verbatim>\<open>x * 100\<close>, \<^verbatim>\<open>Math.round\<close>) reaches a point where they differ
  observably.
\<close>

datatype jsnum = NaN | PInf | NInf | Fin rat

datatype jsval =
    JUndefined
  | JNull
  | JBool bool
  | JNum jsnum
  | JStr string
  | JArr "jsval list"
  | JObject "(string \<times> jsval) list"

text \<open>A thrown JavaScript exception, with its message.\<close>

datatype exn = Exn string

text \<open>The parsed request body: a JSON object, read by property name.\<close>

type_synonym body = "string \<rightharpoonup> jsval"

definition field :: "body \<Rightarrow> string \<Rightarrow> jsval" where
  "field b k = (case b k of None \<Rightarrow> JUndefined | Some v \<Rightarrow> v)"

text \<open>\<^verbatim>\<open>!x\<close> is \<open>\<not> truthy x\<close>: the falsy values are \<^verbatim>\<open>undefined\<close>, \<^verbatim>\<open>null\<close>,
  \<^verbatim>\<open>false\<close>, \<^verbatim>\<open>NaN\<close>, zero and the empty string.\<close>

fun num_truthy :: "jsnum \<Rightarrow> bool" where
  "num_truthy NaN = False"
| "num_truthy (Fin q) = (q \<noteq> 0)"
| "num_truthy PInf = True"
| "num_truthy NInf = True"

fun truthy :: "jsval \<Rightarrow> bool" where
  "truthy JUndefined = False"
| "truthy JNull = False"
| "truthy (JBool b) = b"
| "truthy (JNum n) = num_truthy n"
| "truthy (JStr s) = (s \<noteq> [])"
| "truthy (JArr xs) = True"
| "truthy (JObject kvs) = True"

text \<open>\<^verbatim>\<open>typeof x === 'string'\<close>.\<close>

fun is_string :: "jsval \<Rightarrow> bool" where
  "is_string (JStr s) = True"
| "is_string v = False"

text \<open>
  The string conversion of a template literal \<^verbatim>\<open>`${x}`\<close>. The cases of a string,
  \<^verbatim>\<open>undefined\<close>, \<^verbatim>\<open>null\<close> and a boolean are written out; the conversion of a number,
  an array or an object is the language runtime's, taken as the parameter \<open>rt\<close>. It can
  throw: an object parsed from \<^verbatim>\<open>{"toString": 1, "valueOf": 1}\<close> has no callable
  conversion method and raises a TypeError.
\<close>

fun ToString :: "(jsval \<Rightarrow> exn + string) \<Rightarrow> jsval \<Rightarrow> exn + string" where
  "ToString rt (JStr s) = Inr s"
| "ToString rt JUndefined = Inr ''undefined''"
| "ToString rt JNull = Inr ''null''"
| "ToString rt (JBool b) = Inr (if b then ''true'' else ''false'')"
| "ToString rt v = rt v"

section \<open>Number arithmetic\<close>

text \<open>
  The result of an arithmetic operation on doubles is the exact result rounded to the
  nearest double, ties to the even significand (IEEE 754 binary64: 53 significant bits,
  least exponent of a unit in the last place \<open>-1074\<close>, overflow to an infinity from
  \<open>2 ^ 1024\<close> on). \<open>ilog2 q\<close> is the exponent \<open>k\<close> with \<open>2 ^ k \<le> q < 2 ^ (k + 1)\<close>, found
  from the bit lengths of numerator and denominator.
\<close>

definition ilog2 :: "rat \<Rightarrow> int" where
  "ilog2 q = (let (a, b) = quotient_of q; d = bitlen a - bitlen b
              in if 2 powi d \<le> q then d else d - 1)"

definition round_half_even :: "rat \<Rightarrow> int" where
  "round_half_even x =
     (let f = \<lfloor>x\<rfloor>; r = x - of_int f
      in if r < 1/2 then f else if 1/2 < r then f + 1 else if even f then f else f + 1)"

definition to_double :: "rat \<Rightarrow> jsnum" where
  "to_double q =
     (if q = 0 then Fin 0
      else let e = max (ilog2 \<bar>q\<bar> - 52) (- 1074);
               r = of_int (round_half_even (q / 2 powi e)) * 2 powi e
           in if 2 ^ 1024 \<le> \<bar>r\<bar> then (if 0 < q then PInf else NInf) else Fin r)"

fun is_neg :: "jsnum \<Rightarrow> bool" where
  "is_neg (Fin q) = (q < 0)"
| "is_neg NInf = True"
| "is_neg x = False"

text \<open>\<^verbatim>\<open>x * y\<close>: a not-a-number operand, or zero times an infinity, gives \<^verbatim>\<open>NaN\<close>; an
  infinite operand otherwise gives the infinity of the product's sign.\<close>

fun js_mul :: "jsnum \<Rightarrow> jsnum \<Rightarrow> jsnum" where
  "js_mul (Fin a) (Fin b) = to_double (a * b)"
| "js_mul x y =
     (if x = NaN \<or> y = NaN \<or> x = Fin 0 \<or> y = Fin 0 then NaN
      else if is_neg x = is_neg y then PInf else NInf)"

text \<open>\<^verbatim>\<open>Math.round(x)\<close>: the integer nearest to \<open>x\<close>, the greater one of two equally near;
  it is exact, since a double of magnitude \<open>2 ^ 52\<close> or more is an integer already.\<close>

fun Math_round :: "jsnum \<Rightarrow> jsnum" where
  "Math_round (Fin q) = Fin (of_int \<lfloor>q + 1/2\<rfloor>)"
| "Math_round x = x"

text \<open>\<^verbatim>\<open>x <= 0\<close>; a comparison with \<^verbatim>\<open>NaN\<close> is false.\<close>

fun js_le0 :: "jsnum \<Rightarrow> bool" where
  "js_le0 (Fin q) = (q \<le> 0)"
| "js_le0 NInf = True"
| "js_le0 x = False"

text \<open>
  \<^verbatim>\<open>Number(x)\<close>. The conversion of a string (parsing), an array or an object is the
  language runtime's, taken as the parameter \<open>rt\<close>; like the string conversion, it can
  throw on an object.
\<close>

fun Number :: "(jsval \<Rightarrow> exn + jsnum) \<Rightarrow> jsval \<Rightarrow> exn + jsnum" where
  "Number rt (JNum n) = Inr n"
| "Number rt JUndefined = Inr NaN"
| "Number rt JNull = Inr (Fin 0)"
| "Number rt (JBool b) = Inr (Fin (if b then 1 else 0))"
| "Number rt v = rt v"

text \<open>The decimal digits of a natural number: the string conversion of \<^verbatim>\<open>Date.now()\<close>,
  a count of milliseconds. \<open>digit\<close> is the lower-case digit of a value below sixteen.\<close>

definition digit :: "nat \<Rightarrow> char" where
  "digit n = ''0123456789abcdef'' ! (n mod 16)"

fun dec :: "nat \<Rightarrow> string" where
  "dec n = (if n < 10 then [digit n] else dec (n div 10) @ [digit (n mod 10)])"

declare dec.simps [simp del]

section \<open>JSON text\<close>

text \<open>
  \<^verbatim>\<open>JSON.stringify\<close> of a string: the quotation mark, the backslash and the control
  characters below \<open>0x20\<close> are escaped, everything else is copied. \<open>stringify1 k v\<close> is
  \<^verbatim>\<open>JSON.stringify({k: v})\<close> for a string \<open>v\<close>.
\<close>

definition json_escape :: "char \<Rightarrow> string" where
  "json_escape c =
     (if c = CHR 0x22 then [CHR 0x5C, CHR 0x22]
      else if c = CHR 0x5C then [CHR 0x5C, CHR 0x5C]
      else if c = CHR 0x08 then [CHR 0x5C, CHR ''b'']
      else if c = CHR 0x09 then [CHR 0x5C, CHR ''t'']
      else if c = CHR 0x0A then [CHR 0x5C, CHR ''n'']
      else if c = CHR 0x0C then [CHR 0x5C, CHR ''f'']
      else if c = CHR 0x0D then [CHR 0x5C, CHR ''r'']
      else if (of_char c :: nat) < 32
        then [CHR 0x5C, CHR ''u'', CHR ''0'', CHR ''0'',
              digit (of_char c div 16), digit (of_char c mod 16)]
      else [c])"

definition json_quote :: "string \<Rightarrow> string" where
  "json_quote s = CHR 0x22 # concat (map json_escape s) @ [CHR 0x22]"

definition stringify1 :: "string \<Rightarrow> string \<Rightarrow> string" where
  "stringify1 k v = ''{'' @ json_quote k @ '':'' @ json_quote v @ ''}''"

section \<open>Observable effects of a handler\<close>

text \<open>
  A handler run is modelled by the list of its effects, in the order in which the code
  performs them. \<open>ResJson c b\<close> is \<^verbatim>\<open>res.status(c).json(b)\<close> (\<^verbatim>\<open>res.json(b)\<close> has status
  200). \<open>CreateHmac k p\<close> is the computation of the SHA-256 HMAC of \<open>p\<close> under key \<open>k\<close>.
  \<open>SocketClosed\<close> is not an action of the handler but the event of the client closing the
  connection, recorded at the point of the run where it happens.
\<close>

record order_options =
  amount :: jsnum
  currency :: string
  receipt :: string

datatype effect =
    ResJson nat jsval
  | ConsoleError string exn
  | CreateHmac string string
  | IoEmit string jsval
  | OrdersCreate order_options
  | GenerateContent string string string
  | GenerateContentStream string string string
  | StreamNext
  | StreamReturn
  | WriteHead nat "(string \<times> string) list"
  | ResWrite string
  | ResEnd "string option"
  | SocketClosed

section \<open>Configuration\<close>

text \<open>
  \<^verbatim>\<open>process.env\<close>: each variable is a string or absent. \<^verbatim>\<open>x || ''\<close> turns an absent
  variable into the empty string.
\<close>

record env =
  RAZORPAY_KEY_ID :: "string option"
  RAZORPAY_KEY_SECRET :: "string option"
  GEMINI_API_KEY :: "string option"
  GOOGLE_API_KEY :: "string option"

definition or_empty :: "string option \<Rightarrow> string" where
  "or_empty x = (case x of None \<Rightarrow> [] | Some s \<Rightarrow> s)"

definition razorpayKeyId :: "env \<Rightarrow> string" where
  "razorpayKeyId e = or_empty (RAZORPAY_KEY_ID e)"

definition razorpayKeySecret :: "env \<Rightarrow> string" where
  "razorpayKeySecret e = or_empty (RAZORPAY_KEY_SECRET e)"

text \<open>\<^verbatim>\<open>process.env.GEMINI_API_KEY || process.env.GOOGLE_API_KEY || ''\<close>.\<close>

definition apiKey :: "env \<Rightarrow> string" where
  "apiKey e =
     (if or_empty (GEMINI_API_KEY e) \<noteq> [] then or_empty (GEMINI_API_KEY e)
      else or_empty (GOOGLE_API_KEY e))"

section \<open>Payment verification\<close>

text \<open>
  \<^verbatim>\<open>POST /api/razorpay/verify-payment\<close>. The parameter \<open>hmac\<close> is
  \<^verbatim>\<open>crypto.createHmac('sha256', key).update(payload).digest('hex')\<close> as a function of the
  key and the payload. The only statement of the \<^verbatim>\<open>try\<close> block that can throw is the
  template literal, before any effect; the \<^verbatim>\<open>catch\<close> block logs and answers 500.
\<close>

definition verify_catch :: "exn \<Rightarrow> effect list" where
  "verify_catch e =
     [ConsoleError ''Error verifying payment:'' e,
      ResJson 500 (JObject [(''success'', JBool False), (''error'', JStr ''Verification failed'')])]"

definition verify_payment ::
  "(string \<Rightarrow> string \<Rightarrow> string) \<Rightarrow> (jsval \<Rightarrow> exn + string) \<Rightarrow> env \<Rightarrow> body \<Rightarrow> effect list" where
  "verify_payment hmac rt e b =
     (let razorpay_order_id = field b ''razorpay_order_id'';
          razorpay_payment_id = field b ''razorpay_payment_id'';
          razorpay_signature = field b ''razorpay_signature''
      in if \<not> truthy razorpay_order_id \<or> \<not> truthy razorpay_payment_id \<or> \<not> truthy razorpay_signature
         then [ResJson 400 (JObject [(''success'', JBool False), (''error'', JStr ''Missing fields'')])]
         else
           (case ToString rt razorpay_order_id of
              Inl x \<Rightarrow> verify_catch x
            | Inr s1 \<Rightarrow>
               (case ToString rt razorpay_payment_id of
                  Inl x \<Rightarrow> verify_catch x
                | Inr s2 \<Rightarrow>
                   (let payload = s1 @ ''|'' @ s2;
                        expectedSignature = hmac (razorpayKeySecret e) payload;
                        isValid = (JStr expectedSignature = razorpay_signature)
                    in [CreateHmac (razorpayKeySecret e) payload]
                       @ (if isValid
                          then [IoEmit ''payment:verified''
                                  (JObject [(''razorpay_order_id'', razorpay_order_id),
                                            (''razorpay_payment_id'', razorpay_payment_id)])]
                          else [])
                       @ [ResJson 200 (JObject [(''success'', JBool isValid)])]))))"

section \<open>Order creation\<close>

text \<open>
  \<^verbatim>\<open>POST /api/razorpay/create-order\<close>. The parameter \<open>orders_create\<close> is the outcome of the
  provider's \<^verbatim>\<open>razorpay.orders.create(options)\<close>, the created order or a rejection;
  \<open>now\<close> is the reading of \<^verbatim>\<open>Date.now()\<close>. An exception of the \<^verbatim>\<open>try\<close> block, thrown by
  \<^verbatim>\<open>Number(...)\<close> or by the provider call, is logged and answered with 500.
\<close>

definition create_order_catch :: "exn \<Rightarrow> effect list" where
  "create_order_catch x =
     [ConsoleError ''Error creating order:'' x,
      ResJson 500 (JObject [(''success'', JBool False), (''error'', JStr ''Failed to create order'')])]"

definition create_order ::
  "(jsval \<Rightarrow> exn + jsnum) \<Rightarrow> (order_options \<Rightarrow> exn + jsval) \<Rightarrow> nat \<Rightarrow> env \<Rightarrow> body
     \<Rightarrow> effect list" where
  "create_order rt orders_create now e b =
     (if razorpayKeyId e = [] \<or> razorpayKeySecret e = []
      then [ResJson 500 (JObject [(''success'', JBool False),
                                  (''error'', JStr ''Razorpay keys not configured'')])]
      else
        (case Number rt (field b ''amount'') of
           Inl x \<Rightarrow> create_order_catch x
         | Inr amountInRupees \<Rightarrow>
            if \<not> num_truthy amountInRupees \<or> js_le0 amountInRupees
            then [ResJson 400 (JObject [(''success'', JBool False), (''error'', JStr ''Invalid amount'')])]
            else
              (let options = \<lparr>amount = Math_round (js_mul amountInRupees (Fin 100)),
                              currency = ''INR'',
                              receipt = ''rcpt_'' @ dec now\<rparr>
               in OrdersCreate options #
                  (case orders_create options of
                     Inl x \<Rightarrow> create_order_catch x
                   | Inr order \<Rightarrow>
                      [ResJson 200 (JObject [(''success'', JBool True), (''order'', order),
                                             (''key_id'', JStr (razorpayKeyId e))])]))))"

section \<open>Text generation\<close>

text \<open>The value of a string; the handlers use a prompt only after
  \<^verbatim>\<open>typeof prompt === 'string'\<close> has been checked.\<close>

fun string_of :: "jsval \<Rightarrow> string" where
  "string_of (JStr s) = s"
| "string_of v = []"

definition model_name :: string where
  "model_name = ''gemini-1.5-flash''"


text \<open>
  \<^verbatim>\<open>POST /api/gemini/chat-stream\<close>. A streaming session is what happens after the stream
  has been requested: the chunks the upstream iterator yields, in order, each with the
  outcome of its \<^verbatim>\<open>chunk.text()\<close> (the fragment, or an exception), interleaved with the
  moments at which the client closes the connection, and the way the iterator ends:
  exhausted, or raising. The parameter \<open>generateContentStream\<close> gives the session, or the
  exception with which \<^verbatim>\<open>model.generateContentStream(prompt)\<close> rejects.

  The handler registers no listener for the closing of the connection and never reads
  the state of the response, and \<^verbatim>\<open>res.write\<close> on a closed connection does not throw: the
  loop takes no notice of a \<open>ClientClose\<close>.
\<close>

datatype stream_end = Exhausted | Raises exn

datatype item = Chunk "exn + string" | ClientClose

type_synonym session = "item list \<times> stream_end"

definition data_event :: "string \<Rightarrow> string" where
  "data_event text = ''data: '' @ stringify1 ''text'' text @ [CHR 0x0A, CHR 0x0A]"

definition error_event :: string where
  "error_event = ''data: '' @ stringify1 ''error'' ''Streaming failed'' @ [CHR 0x0A, CHR 0x0A]"

definition done_events :: "string list" where
  "done_events = [''event: done'' @ [CHR 0x0A], ''data: {}'' @ [CHR 0x0A, CHR 0x0A]]"

text \<open>The \<^verbatim>\<open>catch\<close> block of the streaming handler.\<close>

definition stream_catch :: "exn \<Rightarrow> effect list" where
  "stream_catch x = [ConsoleError ''Gemini stream error:'' x, ResWrite error_event, ResEnd None]"

text \<open>
  The \<^verbatim>\<open>for await\<close> loop and what follows it. Each iteration pulls from the iterator
  (\<open>StreamNext\<close>); a pull that finds it exhausted ends the loop, one that raises enters the
  \<^verbatim>\<open>catch\<close> block. An exception thrown in the loop body makes \<^verbatim>\<open>for await\<close> close the
  iterator (\<open>StreamReturn\<close>) before the \<^verbatim>\<open>catch\<close> block runs.
\<close>

fun relay :: "item list \<Rightarrow> stream_end \<Rightarrow> effect list" where
  "relay [] Exhausted = StreamNext # map ResWrite done_events @ [ResEnd None]"
| "relay [] (Raises x) = StreamNext # stream_catch x"
| "relay (ClientClose # rest) fin = SocketClosed # relay rest fin"
| "relay (Chunk (Inl x) # rest) fin = StreamNext # StreamReturn # stream_catch x"
| "relay (Chunk (Inr text) # rest) fin =
     StreamNext # (if text \<noteq> [] then [ResWrite (data_event text)] else []) @ relay rest fin"

definition chat_stream ::
  "(string \<Rightarrow> string \<Rightarrow> string \<Rightarrow> exn + session) \<Rightarrow> env \<Rightarrow> body \<Rightarrow> effect list" where
  "chat_stream generateContentStream e b =
     (if apiKey e = []
      then [WriteHead 500 [(''Content-Type'', ''application/json'')],
            ResEnd (Some (stringify1 ''error'' ''GEMINI_API_KEY not configured''))]
      else
        (let prompt = field b ''prompt''
         in if \<not> truthy prompt \<or> \<not> is_string prompt
            then [WriteHead 400 [(''Content-Type'', ''application/json'')],
                  ResEnd (Some (stringify1 ''error'' ''Invalid prompt''))]
            else WriteHead 200 [(''Content-Type'', ''text/event-stream''),
                                (''Cache-Control'', ''no-cache''),
                                (''Connection'', ''keep-alive'')] #
                 GenerateContentStream (apiKey e) model_name (string_of prompt) #
                 (case generateContentStream (apiKey e) model_name (string_of prompt) of
                    Inl x \<Rightarrow> stream_catch x
                  | Inr (items, fin) \<Rightarrow> relay items fin)))"

section \<open>Projections of a run\<close>


fun is_emit :: "effect \<Rightarrow> bool" where
  "is_emit (IoEmit n v) = True"
| "is_emit x = False"


text \<open>A response whose JSON body has \<^verbatim>\<open>success: false\<close>.\<close>

fun returns_failure :: "effect \<Rightarrow> bool" where
  "returns_failure (ResJson c (JObject kvs)) = (map_of kvs ''success'' = Some (JBool False))"
| "returns_failure x = False"

definition emits :: "effect list \<Rightarrow> effect list" where
  "emits tr = filter is_emit tr"


text \<open>A verification request's three fields, as the handler reads them.\<close>

definition order_id :: "body \<Rightarrow> jsval" where
  "order_id b = field b ''razorpay_order_id''"

definition payment_id :: "body \<Rightarrow> jsval" where
  "payment_id b = field b ''razorpay_payment_id''"

definition signature :: "body \<Rightarrow> jsval" where
  "signature b = field b ''razorpay_signature''"


definition prompt_of :: "body \<Rightarrow> jsval" where
  "prompt_of b = field b ''prompt''"


text \<open>What the handler sends, or attempts to send, on the response: the head, each
  \<^verbatim>\<open>res.write\<close>, and the end.\<close>

fun is_wire :: "effect \<Rightarrow> bool" where
  "is_wire (WriteHead c hs) = True"
| "is_wire (ResWrite s) = True"
| "is_wire (ResEnd s) = True"
| "is_wire x = False"

definition wire :: "effect list \<Rightarrow> effect list" where
  "wire tr = filter is_wire tr"

text \<open>The part of a run after the client has closed the connection.\<close>

definition after_close :: "effect list \<Rightarrow> effect list" where
  "after_close tr = drop 1 (dropWhile (\<lambda>x. x \<noteq> SocketClosed) tr)"

text \<open>A session of fragments only, and a session with the disconnects left out.\<close>

definition fragments :: "string list \<Rightarrow> item list" where
  "fragments ts = map (\<lambda>t. Chunk (Inr t)) ts"

definition without_close :: "exn + session \<Rightarrow> exn + session" where
  "without_close r =
     (case r of
        Inl x \<Rightarrow> Inl x
      | Inr (items, fin) \<Rightarrow> Inr (filter (\<lambda>i. i \<noteq> ClientClose) items, fin))"

section \<open>Concrete inputs\<close>

text \<open>A configured and an unconfigured server, and a verification request.\<close>

definition env_configured :: env where
  "env_configured =
     \<lparr>RAZORPAY_KEY_ID = Some ''rzp_test_1'', RAZORPAY_KEY_SECRET = Some ''s3cret'',
      GEMINI_API_KEY = Some ''gm_key'', GOOGLE_API_KEY = None\<rparr>"


definition verify_body :: "string \<Rightarrow> body" where
  "verify_body sig =
     [''razorpay_order_id'' \<mapsto> JStr ''order_1'', ''razorpay_payment_id'' \<mapsto> JStr ''pay_1'',
      ''razorpay_signature'' \<mapsto> JStr sig]"

text \<open>A stand-in for the digest function and for the runtime's string conversion.\<close>

definition hmac_stub :: "string \<Rightarrow> string \<Rightarrow> string" where
  "hmac_stub k p = ''5f'' @ k @ p"

definition rt_throws :: "jsval \<Rightarrow> exn + string" where
  "rt_throws v = Inl (Exn ''TypeError: Cannot convert object to primitive value'')"

text \<open>An order request that also names a currency, a provider that accepts every order,
  and a number conversion for the values the runtime has to parse.\<close>

definition order_body :: "jsnum \<Rightarrow> body" where
  "order_body a = [''amount'' \<mapsto> JNum a, ''currency'' \<mapsto> JStr ''USD'']"

definition order_stub :: "order_options \<Rightarrow> exn + jsval" where
  "order_stub opts = Inr (JObject [(''id'', JStr ''order_1''), (''amount'', JNum (amount opts))])"

definition rt_nan :: "jsval \<Rightarrow> exn + jsnum" where
  "rt_nan v = Inr NaN"

text \<open>A generation request, a provider answering with one text, and streaming sessions:
  three fragments with the client leaving after the second, fragments followed by a
  failure of the iterator, and fragments of which one is empty.\<close>

definition prompt_body :: body where
  "prompt_body = [''prompt'' \<mapsto> JStr ''Hi'']"


definition session_disconnect :: "string \<Rightarrow> string \<Rightarrow> string \<Rightarrow> exn + session" where
  "session_disconnect k m p =
     Inr ([Chunk (Inr ''Hel''), Chunk (Inr ''lo''), ClientClose, Chunk (Inr ''!'')], Exhausted)"

definition session_fails :: "string \<Rightarrow> string \<Rightarrow> string \<Rightarrow> exn + session" where
  "session_fails k m p = Inr (fragments [''Hel'', ''lo''], Raises (Exn ''503 Service Unavailable''))"

definition session_ok :: "string \<Rightarrow> string \<Rightarrow> string \<Rightarrow> exn + session" where
  "session_ok k m p = Inr (fragments [''Hel'', [], ''lo''], Exhausted)"

section \<open>Facts about the number arithmetic\<close>

text \<open>\<open>ilog2\<close> finds the binary exponent of a positive rational.\<close>

lemma pow2_interval_unique:
  fixes q :: rat
  assumes "2 powi k \<le> q" "q < 2 powi (k + 1)" "2 powi j \<le> q" "q < 2 powi (j + 1)"
  shows "k = j"
proof -
  have "(2::rat) powi k < 2 powi (j + 1)" using assms by linarith
  then have kj: "k < j + 1"
    using power_int_increasing [of "j + 1" k "2::rat"] by force
  have "(2::rat) powi j < 2 powi (k + 1)" using assms by linarith
  then have jk: "j < k + 1"
    using power_int_increasing [of "k + 1" j "2::rat"] by force
  from kj jk show ?thesis by simp
qed

lemma of_int_bitlen_bounds:
  assumes "0 < a"
  shows "(2::rat) powi (bitlen a - 1) \<le> of_int a \<and> (of_int a :: rat) < 2 powi (bitlen a)"
proof -
  from bitlen_bounds [OF assms]
  have lo: "2 ^ nat (bitlen a - 1) \<le> a" and hi: "a < 2 ^ nat (bitlen a)" by simp_all
  have pos: "1 \<le> bitlen a"
    using assms bitlen_eq_zero_iff [of a] bitlen_nonneg [of a] by linarith
  have "(of_int (2 ^ nat (bitlen a - 1)) :: rat) \<le> of_int a"
    using lo by (simp only: of_int_le_iff)
  then have l: "(2::rat) powi (bitlen a - 1) \<le> of_int a"
    using pos by (simp add: power_int_def)
  have "(of_int a :: rat) < of_int (2 ^ nat (bitlen a))"
    using hi by (simp only: of_int_less_iff)
  then have h: "(of_int a :: rat) < 2 powi (bitlen a)"
    using pos by (simp add: power_int_def)
  from l h show ?thesis by simp
qed

lemma ilog2_bounds:
  assumes "0 < q"
  shows "2 powi (ilog2 q) \<le> q \<and> q < 2 powi (ilog2 q + 1)"
proof -
  obtain a b where ab: "quotient_of q = (a, b)" by (cases "quotient_of q")
  have bpos: "0 < b" using ab by (rule quotient_of_denom_pos)
  have q: "q = of_int a / of_int b" using ab by (rule quotient_of_div)
  have apos: "0 < a"
    using assms bpos unfolding q by (simp add: zero_less_divide_iff)
  define d where "d = bitlen a - bitlen b"
  note A = of_int_bitlen_bounds [OF apos] and B = of_int_bitlen_bounds [OF bpos]
  have bpos': "(0::rat) < of_int b" using bpos by simp
  have up: "q < 2 powi (d + 1)"
  proof -
    have "of_int a < (2::rat) powi (bitlen a)" using A by simp
    also have "\<dots> = 2 powi (d + 1) * 2 powi (bitlen b - 1)"
      unfolding d_def by (simp flip: power_int_add)
    also have "\<dots> \<le> 2 powi (d + 1) * of_int b"
      using B by (intro mult_left_mono) auto
    finally show ?thesis unfolding q using bpos' by (simp add: pos_divide_less_eq)
  qed
  have low: "2 powi (d - 1) < q"
  proof -
    have "(2::rat) powi (d - 1) * of_int b < 2 powi (d - 1) * 2 powi (bitlen b)"
      using B by (intro mult_strict_left_mono) auto
    also have "\<dots> = 2 powi (bitlen a - 1)"
      unfolding d_def by (simp flip: power_int_add)
    also have "\<dots> \<le> of_int a" using A by simp
    finally show ?thesis unfolding q using bpos' by (simp add: pos_less_divide_eq)
  qed
  show ?thesis
  proof (cases "2 powi d \<le> q")
    case True
    then have "ilog2 q = d" by (simp add: ilog2_def ab d_def)
    with True up show ?thesis by simp
  next
    case False
    then have "ilog2 q = d - 1" by (simp add: ilog2_def ab d_def)
    with False low show ?thesis by simp
  qed
qed

lemma ilog2_eq:
  assumes "2 powi k \<le> q" "q < 2 powi (k + 1)"
  shows "ilog2 q = k"
proof -
  have "(0::rat) < 2 powi k" by simp
  with assms have "0 < q" by linarith
  from ilog2_bounds [OF this] assms show ?thesis
    using pow2_interval_unique by blast
qed

text \<open>A double rounding, computed from the exponent of the argument.\<close>

lemma to_double_eq:
  assumes "2 powi k \<le> \<bar>q\<bar>" "\<bar>q\<bar> < 2 powi (k + 1)"
    and "e = max (k - 52) (- 1074)"
    and "round_half_even (q / 2 powi e) = m"
    and "\<bar>of_int m * 2 powi e\<bar> < (2::rat) ^ 1024"
  shows "to_double q = Fin (of_int m * 2 powi e)"
proof -
  have "(0::rat) < 2 powi k" by simp
  with assms(1) have "0 < \<bar>q\<bar>" by linarith
  then have "q \<noteq> 0" by simp
  moreover have "ilog2 \<bar>q\<bar> = k" using assms(1,2) by (rule ilog2_eq)
  ultimately show ?thesis
    using assms(3,4,5) by (simp add: to_double_def Let_def)
qed

lemma floor_rat_numeral:
  "\<lfloor>(numeral a :: rat) / numeral b\<rfloor> = numeral a div numeral b"
  by (metis floor_divide_of_int_eq of_int_numeral)

lemma double_19_99: "to_double (1999/100) = Fin (5626684784446013 / 281474976710656)"
proof -
  have "to_double (1999/100) = Fin (of_int 5626684784446013 * 2 powi (- 48))"
    by (rule to_double_eq [where k = 4])
       (simp_all add: round_half_even_def Let_def floor_rat_numeral)
  then show ?thesis by simp
qed

lemma double_19_99_times_100:
  "js_mul (Fin (5626684784446013 / 281474976710656)) (Fin 100) = Fin (8791694975696895 / 4398046511104)"
proof -
  have "to_double (5626684784446013 / 281474976710656 * 100) = Fin (of_int 8791694975696895 * 2 powi (- 42))"
    by (rule to_double_eq [where k = 10])
       (simp_all add: round_half_even_def Let_def floor_rat_numeral)
  then show ?thesis by simp
qed

lemma amount_19_99: "Math_round (js_mul (to_double (1999/100)) (Fin 100)) = Fin 1999"
  by (simp only: double_19_99 double_19_99_times_100) (simp add: floor_rat_numeral)

text \<open>
  The product is rounded before \<^verbatim>\<open>Math.round\<close> sees it. The double nearest to 0.235 lies
  below 0.235 and its exact hundredfold below 23.5, yet the double product is 23.5 and
  the amount 24.
\<close>

lemma double_0_235: "to_double (235/1000) = Fin (2116691824864133 / 9007199254740992)"
proof -
  have "to_double (235/1000) = Fin (of_int 8466767299456532 * 2 powi (- 55))"
    by (rule to_double_eq [where k = "- 3"])
       (simp_all add: round_half_even_def Let_def floor_rat_numeral)
  then show ?thesis by simp
qed

lemma double_0_235_times_100:
  "js_mul (Fin (2116691824864133 / 9007199254740992)) (Fin 100) = Fin (47 / 2)"
proof -
  have "to_double (2116691824864133 / 9007199254740992 * 100) =
          Fin (of_int 6614661952700416 * 2 powi (- 48))"
    by (rule to_double_eq [where k = 4])
       (simp_all add: round_half_even_def Let_def floor_rat_numeral)
  then show ?thesis by simp
qed

lemma amount_0_235:
  "Math_round (js_mul (to_double (235/1000)) (Fin 100)) = Fin 24
   \<and> \<lfloor>(2116691824864133 / 9007199254740992 :: rat) * 100 + 1/2\<rfloor> = 23"
  by (simp only: double_0_235 double_0_235_times_100) (simp add: floor_rat_numeral)

section \<open>Verification rejects an incomplete request before any HMAC\<close>



section \<open>Verification publishes exactly when the signature is valid\<close>

text \<open>
  Claim C1. For a verification request whose three fields are all present (they pass the
  handler's presence test), the run publishes a \<^verbatim>\<open>payment:verified\<close> event if and only if
  the supplied signature is the string that \<open>hmac\<close> gives for the configured secret and the
  payload \<^verbatim>\<open>orderId + "|" + referenceId\<close>; it then publishes exactly one event, carrying the
  two ids, and otherwise none. For every request, a run that answers with
  \<^verbatim>\<open>success: false\<close> publishes nothing.
\<close>

theorem verify_payment_publishes_iff_valid:
  "(truthy (order_id b) \<and> truthy (payment_id b) \<and> truthy (signature b) \<longrightarrow>
     (if \<exists>s1 s2. ToString rt (order_id b) = Inr s1 \<and> ToString rt (payment_id b) = Inr s2
            \<and> signature b = JStr (hmac (razorpayKeySecret e) (s1 @ ''|'' @ s2))
      then emits (verify_payment hmac rt e b) =
             [IoEmit ''payment:verified''
                (JObject [(''razorpay_order_id'', order_id b), (''razorpay_payment_id'', payment_id b)])]
      else emits (verify_payment hmac rt e b) = []))
   \<and> ((\<exists>r \<in> set (verify_payment hmac rt e b). returns_failure r) \<longrightarrow>
        emits (verify_payment hmac rt e b) = [])"
  by (auto simp: verify_payment_def verify_catch_def order_id_def payment_id_def signature_def
        emits_def Let_def split: sum.splits)

theorem verify_payment_publishes_iff_valid_witness:
  "emits (verify_payment hmac_stub rt_throws env_configured (verify_body ''5fs3cretorder_1|pay_1'')) =
     [IoEmit ''payment:verified''
        (JObject [(''razorpay_order_id'', JStr ''order_1''), (''razorpay_payment_id'', JStr ''pay_1'')])]
   \<and> returns_failure (ResJson 200 (JObject [(''success'', JBool False)]))
   \<and> ResJson 200 (JObject [(''success'', JBool False)])
        \<in> set (verify_payment hmac_stub rt_throws env_configured (verify_body ''00''))
   \<and> emits (verify_payment hmac_stub rt_throws env_configured (verify_body ''00'')) = []"
proof -
  have sent: "ResJson 200 (JObject [(''success'', JBool False)])
        \<in> set (verify_payment hmac_stub rt_throws env_configured (verify_body ''00''))"
    by (simp add: verify_payment_def field_def verify_body_def hmac_stub_def Let_def)
  have fails: "returns_failure (ResJson 200 (JObject [(''success'', JBool False)]))"
    by simp
  have valid: "emits (verify_payment hmac_stub rt_throws env_configured
                    (verify_body ''5fs3cretorder_1|pay_1'')) =
     [IoEmit ''payment:verified''
        (JObject [(''razorpay_order_id'', JStr ''order_1''), (''razorpay_payment_id'', JStr ''pay_1'')])]"
    using verify_payment_publishes_iff_valid
            [of "verify_body ''5fs3cretorder_1|pay_1''" rt_throws hmac_stub env_configured]
    by (simp add: order_id_def payment_id_def signature_def field_def verify_body_def
          hmac_stub_def razorpayKeySecret_def or_empty_def env_configured_def)
  have quiet: "emits (verify_payment hmac_stub rt_throws env_configured (verify_body ''00'')) = []"
    using verify_payment_publishes_iff_valid
            [of "verify_body ''00''" rt_throws hmac_stub env_configured] sent fails
    by blast
  from valid fails sent quiet show ?thesis by simp
qed

section \<open>Order creation: amount, currency and receipt\<close>


lemma double_19_99_valid:
  "num_truthy (to_double (1999/100)) \<and> \<not> js_le0 (to_double (1999/100))"
  by (simp add: double_19_99)



lemma env_configured_keys:
  "razorpayKeyId env_configured = ''rzp_test_1''" "razorpayKeySecret env_configured = ''s3cret''"
  by (simp_all add: env_configured_def razorpayKeyId_def razorpayKeySecret_def or_empty_def)

lemma create_order_19_99:
  "create_order rt_nan order_stub now env_configured (order_body (to_double (1999/100))) =
     [OrdersCreate \<lparr>amount = Fin 1999, currency = ''INR'', receipt = ''rcpt_'' @ dec now\<rparr>,
      ResJson 200 (JObject [(''success'', JBool True),
                            (''order'', JObject [(''id'', JStr ''order_1''), (''amount'', JNum (Fin 1999))]),
                            (''key_id'', JStr ''rzp_test_1'')])]"
  using double_19_99_valid
  by (simp add: create_order_def env_configured_keys order_body_def field_def amount_19_99
        order_stub_def Let_def)


text \<open>
  Claim C10. Every upstream order-creation call of a run has currency \<^verbatim>\<open>INR\<close> and the
  receipt \<^verbatim>\<open>rcpt_\<close> followed by the digits of the clock reading, whatever the request
  body holds.
\<close>

theorem create_order_fixed_currency:
  "\<forall>opts. OrdersCreate opts \<in> set (create_order rt oc now e b) \<longrightarrow>
      currency opts = ''INR'' \<and> receipt opts = ''rcpt_'' @ dec now"
  by (auto simp: create_order_def create_order_catch_def Let_def split: sum.splits if_splits)

theorem create_order_fixed_currency_witness:
  "field (order_body (to_double (1999/100))) ''currency'' = JStr ''USD''
   \<and> OrdersCreate \<lparr>amount = Fin 1999, currency = ''INR'', receipt = ''rcpt_'' @ dec 1730570000123\<rparr>
        \<in> set (create_order rt_nan order_stub 1730570000123 env_configured
                 (order_body (to_double (1999/100))))
   \<and> currency \<lparr>amount = Fin 1999, currency = ''INR'', receipt = ''rcpt_'' @ dec 1730570000123\<rparr>
        = ''INR''"
proof -
  have m: "OrdersCreate \<lparr>amount = Fin 1999, currency = ''INR'', receipt = ''rcpt_'' @ dec 1730570000123\<rparr>
        \<in> set (create_order rt_nan order_stub 1730570000123 env_configured
                 (order_body (to_double (1999/100))))"
    by (simp add: create_order_19_99)
  from m create_order_fixed_currency
         [of rt_nan order_stub 1730570000123 env_configured "order_body (to_double (1999/100))"]
  have "currency \<lparr>amount = Fin 1999, currency = ''INR'', receipt = ''rcpt_'' @ dec 1730570000123\<rparr>
        = ''INR''"
    by blast
  with m show ?thesis by (simp add: order_body_def field_def)
qed

lemma dec_example: "dec 1730570000123 = ''1730570000123''"
  by (simp add: dec.simps digit_def)

section \<open>Verification with the secret absent\<close>



section \<open>Text generation: configuration before validation\<close>



section \<open>The streaming relay\<close>

lemma error_event_text:
  "error_event = ''data: {\"error\":\"Streaming failed\"}'' @ [CHR 0x0A, CHR 0x0A]"
  by (simp add: error_event_def stringify1_def json_quote_def json_escape_def)

text \<open>
  A data event is one frame of the event stream: the JSON text holds no line feed (a line
  feed of the fragment is escaped), so the only line feeds are the two that end the event.
\<close>

lemma digit_not_newline: "digit n \<noteq> CHR 0x0A"
proof -
  have "digit n \<in> set ''0123456789abcdef''"
    unfolding digit_def by (rule nth_mem) simp
  then show ?thesis by auto
qed

lemma json_escape_no_newline: "CHR 0x0A \<notin> set (json_escape c)"
  by (simp add: json_escape_def digit_not_newline digit_not_newline [symmetric])

lemma json_quote_no_newline: "CHR 0x0A \<notin> set (json_quote s)"
  by (simp add: json_quote_def json_escape_no_newline)

lemma data_event_one_frame:
  "\<exists>line. data_event t = line @ [CHR 0x0A, CHR 0x0A] \<and> CHR 0x0A \<notin> set line"
proof -
  have "CHR 0x0A \<notin> set (''data: '' @ stringify1 ''text'' t)"
    by (simp add: stringify1_def json_quote_no_newline)
  then show ?thesis unfolding data_event_def by (metis append.assoc)
qed

text \<open>Over a run of fragments the loop pulls once per fragment and writes one data event
  for each fragment that is not empty.\<close>

lemma relay_fragments:
  "relay (fragments ts) fin =
     concat (map (\<lambda>t. StreamNext # (if t \<noteq> [] then [ResWrite (data_event t)] else [])) ts)
     @ relay [] fin"
  by (induction ts) (simp_all add: fragments_def)

lemma wire_relay_fragments:
  "wire (relay (fragments ts) fin) =
     map (\<lambda>t. ResWrite (data_event t)) (filter (\<lambda>t. t \<noteq> []) ts) @ wire (relay [] fin)"
  by (induction ts) (simp_all add: fragments_def wire_def)

text \<open>A disconnect changes nothing in what the loop does.\<close>

lemma relay_ignores_close:
  "filter (\<lambda>x. x \<noteq> SocketClosed) (relay items fin) =
     relay (filter (\<lambda>i. i \<noteq> ClientClose) items) fin"
proof (induction items fin rule: relay.induct)
  case 1
  then show ?case by (simp add: done_events_def)
next
  case (2 x)
  then show ?case by (simp add: stream_catch_def)
next
  case (3 rest fin)
  then show ?case by simp
next
  case (4 x rest fin)
  then show ?case by (simp add: stream_catch_def)
next
  case (5 t rest fin)
  then show ?case by simp
qed

lemma wire_relay_ignores_close:
  "wire (relay items fin) = wire (relay (filter (\<lambda>i. i \<noteq> ClientClose) items) fin)"
proof -
  have "wire (filter (\<lambda>x. x \<noteq> SocketClosed) (relay items fin)) = wire (relay items fin)"
    unfolding wire_def filter_filter by (rule filter_cong) auto
  then show ?thesis by (simp add: relay_ignores_close)
qed

text \<open>The done event is written only after the iterator is exhausted.\<close>

lemma done_not_written_on_failure:
  "ResWrite (''event: done'' @ [CHR 0x0A]) \<notin> set (relay items (Raises x))"
proof (induction items)
  case Nil
  then show ?case by (simp add: stream_catch_def error_event_text)
next
  case (Cons i items)
  show ?case
  proof (cases i)
    case (Chunk r)
    with Cons show ?thesis
      by (cases r) (simp_all add: stream_catch_def error_event_text data_event_def)
  next
    case ClientClose
    with Cons show ?thesis by simp
  qed
qed

lemma chat_stream_started:
  assumes "apiKey e \<noteq> []" and "prompt_of b = JStr p" and "p \<noteq> []"
  shows "chat_stream gcs e b =
           WriteHead 200 [(''Content-Type'', ''text/event-stream''),
                          (''Cache-Control'', ''no-cache''), (''Connection'', ''keep-alive'')] #
           GenerateContentStream (apiKey e) model_name p #
           (case gcs (apiKey e) model_name p of
              Inl x \<Rightarrow> stream_catch x
            | Inr (items, fin) \<Rightarrow> relay items fin)"
  using assms by (simp add: chat_stream_def prompt_of_def Let_def)

text \<open>
  Claim C8. On the success path (a key is configured, the prompt is a non-empty string,
  the upstream iterator yields the fragments \<open>ts\<close> and is then exhausted) what the handler
  writes is: the head, one data event for each non-empty fragment of \<open>ts\<close> and none for an
  empty one, in the order of \<open>ts\<close>, then the two writes of the done event, then the end.
  This holds of every session, with or without disconnects of the client in it.
\<close>

theorem chat_stream_success_writes:
  assumes "apiKey e \<noteq> []" and "prompt_of b = JStr p" and "p \<noteq> []"
    and "gcs (apiKey e) model_name p = Inr (items, Exhausted)"
    and "filter (\<lambda>i. i \<noteq> ClientClose) items = fragments ts"
  shows "wire (chat_stream gcs e b) =
           WriteHead 200 [(''Content-Type'', ''text/event-stream''),
                          (''Cache-Control'', ''no-cache''), (''Connection'', ''keep-alive'')] #
           map (\<lambda>t. ResWrite (data_event t)) (filter (\<lambda>t. t \<noteq> []) ts)
           @ map ResWrite done_events @ [ResEnd None]"
proof -
  have "wire (relay [] Exhausted) = map ResWrite done_events @ [ResEnd None]"
    by (simp add: wire_def done_events_def)
  then have "wire (relay items Exhausted) =
      map (\<lambda>t. ResWrite (data_event t)) (filter (\<lambda>t. t \<noteq> []) ts)
      @ map ResWrite done_events @ [ResEnd None]"
    using wire_relay_ignores_close [of items Exhausted] wire_relay_fragments [of ts Exhausted]
    by (simp add: assms(5))
  then show ?thesis
    using assms(4) by (simp add: chat_stream_started [OF assms(1-3)] wire_def)
qed

lemma env_configured_apiKey: "apiKey env_configured = ''gm_key''"
  by (simp add: apiKey_def env_configured_def or_empty_def)

lemma prompt_body_prompt: "prompt_of prompt_body = JStr ''Hi''"
  by (simp add: prompt_of_def prompt_body_def field_def)

theorem chat_stream_success_writes_witness:
  "wire (chat_stream session_ok env_configured prompt_body) =
     [WriteHead 200 [(''Content-Type'', ''text/event-stream''),
                     (''Cache-Control'', ''no-cache''), (''Connection'', ''keep-alive'')],
      ResWrite (''data: {\"text\":\"Hel\"}'' @ [CHR 0x0A, CHR 0x0A]),
      ResWrite (''data: {\"text\":\"lo\"}'' @ [CHR 0x0A, CHR 0x0A]),
      ResWrite (''event: done'' @ [CHR 0x0A]),
      ResWrite (''data: {}'' @ [CHR 0x0A, CHR 0x0A]),
      ResEnd None]"
proof -
  have s: "session_ok (apiKey env_configured) model_name ''Hi'' =
             Inr (fragments [''Hel'', [], ''lo''], Exhausted)"
    by (simp add: session_ok_def)
  have k: "apiKey env_configured \<noteq> []" by (simp add: env_configured_apiKey)
  have f: "filter (\<lambda>i. i \<noteq> ClientClose) (fragments [''Hel'', [], ''lo'']) =
             fragments [''Hel'', [], ''lo'']"
    by (simp add: fragments_def)
  from k prompt_body_prompt s f
    chat_stream_success_writes
      [of env_configured prompt_body "''Hi''" session_ok "fragments [''Hel'', [], ''lo'']"
          "[''Hel'', [], ''lo'']"]
  show ?thesis
    by (simp add: data_event_def stringify1_def json_quote_def json_escape_def done_events_def)
qed

text \<open>
  Claim C3. When a key is configured, the prompt is a non-empty string, and the upstream
  iterator yields the fragments \<open>ts\<close> and then raises \<open>x\<close>, what the handler writes is: the
  head, the data events of the non-empty fragments of \<open>ts\<close> in order (an empty fragment has
  no data event), one error event, and the end. The error event is the fixed text
  \<^verbatim>\<open>data: {"error":"Streaming failed"}\<close>, in which \<open>x\<close> does not occur, and the line
  \<^verbatim>\<open>event: done\<close> is not written. This holds of every session, with or without
  disconnects of the client in it.
\<close>

theorem chat_stream_upstream_failure:
  assumes "apiKey e \<noteq> []" and "prompt_of b = JStr p" and "p \<noteq> []"
    and "gcs (apiKey e) model_name p = Inr (items, Raises x)"
    and "filter (\<lambda>i. i \<noteq> ClientClose) items = fragments ts"
  shows "wire (chat_stream gcs e b) =
           WriteHead 200 [(''Content-Type'', ''text/event-stream''),
                          (''Cache-Control'', ''no-cache''), (''Connection'', ''keep-alive'')] #
           map (\<lambda>t. ResWrite (data_event t)) (filter (\<lambda>t. t \<noteq> []) ts)
           @ [ResWrite (''data: {\"error\":\"Streaming failed\"}'' @ [CHR 0x0A, CHR 0x0A]),
              ResEnd None]
         \<and> ResWrite (''event: done'' @ [CHR 0x0A]) \<notin> set (chat_stream gcs e b)"
proof -
  have "wire (relay [] (Raises x)) = [ResWrite error_event, ResEnd None]"
    by (simp add: wire_def stream_catch_def)
  then have w: "wire (relay items (Raises x)) =
      map (\<lambda>t. ResWrite (data_event t)) (filter (\<lambda>t. t \<noteq> []) ts)
      @ [ResWrite (''data: {\"error\":\"Streaming failed\"}'' @ [CHR 0x0A, CHR 0x0A]), ResEnd None]"
    using wire_relay_ignores_close [of items "Raises x"] wire_relay_fragments [of ts "Raises x"]
    by (simp add: assms(5) error_event_text)
  have "wire (chat_stream gcs e b) =
          WriteHead 200 [(''Content-Type'', ''text/event-stream''),
                          (''Cache-Control'', ''no-cache''), (''Connection'', ''keep-alive'')] #
          wire (relay items (Raises x))"
    using assms(4) by (simp add: chat_stream_started [OF assms(1-3)] wire_def)
  moreover have "ResWrite (''event: done'' @ [CHR 0x0A]) \<notin> set (chat_stream gcs e b)"
    using assms(4) done_not_written_on_failure [of items x]
    by (simp add: chat_stream_started [OF assms(1-3)])
  ultimately show ?thesis using w by simp
qed

theorem chat_stream_upstream_failure_witness:
  "wire (chat_stream session_fails env_configured prompt_body) =
     [WriteHead 200 [(''Content-Type'', ''text/event-stream''),
                     (''Cache-Control'', ''no-cache''), (''Connection'', ''keep-alive'')],
      ResWrite (''data: {\"text\":\"Hel\"}'' @ [CHR 0x0A, CHR 0x0A]),
      ResWrite (''data: {\"text\":\"lo\"}'' @ [CHR 0x0A, CHR 0x0A]),
      ResWrite (''data: {\"error\":\"Streaming failed\"}'' @ [CHR 0x0A, CHR 0x0A]),
      ResEnd None]"
proof -
  have s: "session_fails (apiKey env_configured) model_name ''Hi'' =
             Inr (fragments [''Hel'', ''lo''], Raises (Exn ''503 Service Unavailable''))"
    by (simp add: session_fails_def)
  have k: "apiKey env_configured \<noteq> []" by (simp add: env_configured_apiKey)
  have f: "filter (\<lambda>i. i \<noteq> ClientClose) (fragments [''Hel'', ''lo'']) =
             fragments [''Hel'', ''lo'']"
    by (simp add: fragments_def)
  from k prompt_body_prompt s f
    chat_stream_upstream_failure
      [of env_configured prompt_body "''Hi''" session_fails "fragments [''Hel'', ''lo'']"
          "Exn ''503 Service Unavailable''" "[''Hel'', ''lo'']"]
  show ?thesis
    by (simp add: data_event_def stringify1_def json_quote_def json_escape_def)
qed

section \<open>The streaming relay and a client that leaves\<close>

text \<open>
  The claim C4 as stated fails. In a session of three fragments whose client closes the
  connection after the second, the handler, after the disconnect, pulls the third
  fragment, attempts to write it, pulls again, and attempts the done event and the end.
\<close>

theorem chat_stream_continues_after_disconnect:
  "after_close (chat_stream session_disconnect env_configured prompt_body) =
     [StreamNext,
      ResWrite (''data: {\"text\":\"!\"}'' @ [CHR 0x0A, CHR 0x0A]),
      StreamNext,
      ResWrite (''event: done'' @ [CHR 0x0A]),
      ResWrite (''data: {}'' @ [CHR 0x0A, CHR 0x0A]),
      ResEnd None]"
  by (simp add: chat_stream_def env_configured_apiKey prompt_body_def field_def
        session_disconnect_def after_close_def done_events_def
        data_event_def stringify1_def json_quote_def json_escape_def)

text \<open>
  Claim C4, amended. The relay takes no notice of a client disconnect: the actions of a
  run in which the client disconnects are, one for one and in the same order, the actions
  of the run of the same session without the disconnect. It goes on pulling until the
  upstream iterator is exhausted or raises, attempts a write for every non-empty fragment,
  and attempts the terminal event and the end.
\<close>

theorem chat_stream_ignores_disconnect:
  "filter (\<lambda>x. x \<noteq> SocketClosed) (chat_stream gcs e b) =
     chat_stream (\<lambda>k m p. without_close (gcs k m p)) e b"
  by (simp add: chat_stream_def without_close_def Let_def relay_ignores_close stream_catch_def
        split: sum.splits prod.splits)

theorem chat_stream_ignores_disconnect_witness:
  "filter (\<lambda>x. x \<noteq> SocketClosed) (chat_stream session_disconnect env_configured prompt_body) =
     [WriteHead 200 [(''Content-Type'', ''text/event-stream''),
                     (''Cache-Control'', ''no-cache''), (''Connection'', ''keep-alive'')],
      GenerateContentStream ''gm_key'' ''gemini-1.5-flash'' ''Hi'',
      StreamNext, ResWrite (data_event ''Hel''),
      StreamNext, ResWrite (data_event ''lo''),
      StreamNext, ResWrite (data_event ''!''),
      StreamNext, ResWrite (''event: done'' @ [CHR 0x0A]),
      ResWrite (''data: {}'' @ [CHR 0x0A, CHR 0x0A]), ResEnd None]"
proof -
  have "chat_stream (\<lambda>k m p. without_close (session_disconnect k m p)) env_configured prompt_body =
     [WriteHead 200 [(''Content-Type'', ''text/event-stream''),
                     (''Cache-Control'', ''no-cache''), (''Connection'', ''keep-alive'')],
      GenerateContentStream ''gm_key'' ''gemini-1.5-flash'' ''Hi'',
      StreamNext, ResWrite (data_event ''Hel''),
      StreamNext, ResWrite (data_event ''lo''),
      StreamNext, ResWrite (data_event ''!''),
      StreamNext, ResWrite (''event: done'' @ [CHR 0x0A]),
      ResWrite (''data: {}'' @ [CHR 0x0A, CHR 0x0A]), ResEnd None]"
    by (simp add: chat_stream_def env_configured_apiKey prompt_body_def field_def
          session_disconnect_def without_close_def done_events_def model_name_def)
  with chat_stream_ignores_disconnect [of session_disconnect env_configured prompt_body]
  show ?thesis by simp
qed

end
